theory Spec2Isabelle
  imports Complex_Main
begin

section \<open>Workflow types (types/workflow.ts, types/events.ts)\<close>

text \<open>
  Values of the TypeScript type \<open>any\<close> that the engine stores and forwards (step data,
  initial data, human answers). The model covers \<open>undefined\<close> (as \<open>None\<close> of an option),
  strings and plain objects; an object is its list of own properties in insertion order.
\<close>

datatype jsval = JStr string | JObj "(string \<times> jsval) list"

text \<open>What a \<open>throw\<close> carries: an \<open>Error\<close> object with its message, or any other value.\<close>

datatype thrown = JsError string | JsThrown jsval

datatype status = Pending | Running | Paused | Completed | Failed

text \<open>
  \<open>step.config\<close> is a \<open>Record<string, any>\<close>; the engine reads the four keys below
  (in \<open>executeStep\<close>), each absent or present; the fields carry the prefix \<open>cfg_\<close>.
\<close>

record StepConfig =
  cfg_prompt :: "string option"
  cfg_inputType :: "string option"
  cfg_options :: "string list option"
  cfg_metadata :: "jsval option"

record WorkflowStep =
  step_id :: string
  name :: string
  step_type :: string
  config :: StepConfig
  dependencies :: "string list option"

record WorkflowDefinition =
  def_id :: string
  def_name :: string
  steps :: "WorkflowStep list"

record WorkflowState =
  state_id :: nat
  workflowId :: string
  currentStepId :: "string option"
  completedSteps :: "string list"
  stepData :: "string \<rightharpoonup> jsval"
  status :: status
  createdAt :: nat
  updatedAt :: nat

record HumanInput =
  hi_stepId :: string
  hi_prompt :: string
  hi_inputType :: string
  hi_options :: "string list option"
  hi_metadata :: "jsval option"

record StepResult =
  stepId :: string
  success :: bool
  data :: "jsval option"
  error :: "string option"
  requiresHuman :: "HumanInput option"

datatype event_type =
  step_started | step_completed | human_input_required | workflow_completed | workflow_failed

text \<open>
  The \<open>data\<close> payload of an event, by event type. Two payloads of the source also hold a
  reference to the live state object (\<open>{ state }\<close>); a reference is not a value of its
  own and is left out.
\<close>

datatype event_data =
  StepStartedData string WorkflowStep
  | StepCompletedData string "jsval option"
  | HumanInputRequiredData HumanInput
  | WorkflowCompletedData
  | WorkflowFailedData string "string option"

record WorkflowEvent =
  event_id :: nat
  ev_workflowId :: nat
  ev_type :: event_type
  timestamp :: nat
  ev_data :: event_data

section \<open>The workflow engine (core/WorkflowEngine.ts)\<close>

text \<open>
  The engine object: its three private maps, and what it reaches outside itself.
  \<open>emitEvent\<close> hands each event to the listeners of two channels (\<open>'workflow_event'\<close>
  and the event's type); the listeners are outside the engine, so the model appends the
  event to \<open>emitted\<close>, once. \<open>uuidv4()\<close> draws the next value of the counter
  \<open>uuids\<close>, so identifiers are natural numbers and never repeat; \<open>new Date()\<close>
  reads the logical clock \<open>clock\<close>, which advances with every emitted event.
\<close>

record WorkflowEngine =
  workflows :: "string \<rightharpoonup> WorkflowDefinition"
  states :: "nat \<rightharpoonup> WorkflowState"
  pendingHumanInputs :: "nat \<rightharpoonup> HumanInput"
  emitted :: "WorkflowEvent list"
  uuids :: nat
  clock :: nat

definition new_WorkflowEngine :: WorkflowEngine where
  "new_WorkflowEngine =
     \<lparr>workflows = Map.empty, states = Map.empty, pendingHumanInputs = Map.empty,
      emitted = [], uuids = 0, clock = 0\<rparr>"

definition registerWorkflow :: "WorkflowEngine \<Rightarrow> WorkflowDefinition \<Rightarrow> WorkflowEngine" where
  "registerWorkflow e workflow = e\<lparr>workflows := (workflows e)(def_id workflow \<mapsto> workflow)\<rparr>"

definition emitEvent :: "WorkflowEngine \<Rightarrow> nat \<Rightarrow> event_type \<Rightarrow> event_data \<Rightarrow> WorkflowEngine" where
  "emitEvent e wid ty d =
     e\<lparr>emitted := emitted e @
          [\<lparr>event_id = uuids e, ev_workflowId = wid, ev_type = ty, timestamp = clock e,
            ev_data = d\<rparr>],
       uuids := Suc (uuids e),
       clock := Suc (clock e)\<rparr>"

subsection \<open>Step selection\<close>

text \<open>\<open>Array.prototype.includes\<close>, on arrays of strings.\<close>

fun array_includes :: "'a list \<Rightarrow> 'a \<Rightarrow> bool" where
  "array_includes [] x = False"
| "array_includes (y # ys) x = (y = x \<or> array_includes ys x)"

text \<open>
  The callback that \<open>findNextStep\<close> hands to \<open>Array.prototype.find\<close> (\<open>List.find\<close>);
  \<open>Array.prototype.every\<close> is \<open>list_all\<close>.
\<close>

definition step_ready :: "WorkflowState \<Rightarrow> WorkflowStep \<Rightarrow> bool" where
  "step_ready state step =
     (if array_includes (completedSteps state) (step_id step) then False
      else (case dependencies step of
              Some deps \<Rightarrow> list_all (\<lambda>dep. array_includes (completedSteps state) dep) deps
            | None \<Rightarrow> True))"

definition findNextStep :: "WorkflowDefinition \<Rightarrow> WorkflowState \<Rightarrow> WorkflowStep option" where
  "findNextStep workflow state = List.find (step_ready state) (steps workflow)"

text \<open>
  The selection rule in the specification's words: the step's id is not among the
  completed steps, and every declared dependency is.
\<close>

definition declared_dependencies :: "WorkflowStep \<Rightarrow> string set" where
  "declared_dependencies step = (case dependencies step of None \<Rightarrow> {} | Some deps \<Rightarrow> set deps)"

definition qualifies :: "WorkflowState \<Rightarrow> WorkflowStep \<Rightarrow> bool" where
  "qualifies state step =
     (step_id step \<notin> set (completedSteps state) \<and>
      declared_dependencies step \<subseteq> set (completedSteps state))"

subsection \<open>Step execution\<close>

text \<open>
  The default \<open>executeStep\<close>. The method is protected and meant to be overridden, so the
  engine functions below take the step executor as a parameter: a function of the step
  and the state that returns a result or throws.
\<close>

type_synonym executor = "WorkflowStep \<Rightarrow> WorkflowState \<Rightarrow> thrown + StepResult"

text \<open>JavaScript's \<open>a || b\<close> on an optional string: absent and empty are both falsy.\<close>

definition or_default :: "string option \<Rightarrow> string \<Rightarrow> string" where
  "or_default a b = (case a of None \<Rightarrow> b | Some s \<Rightarrow> if s = [] then b else s)"

definition executeStep :: executor where
  "executeStep step state =
     (if step_type step = ''human'' then
        Inr \<lparr>stepId = step_id step, success = True, data = None, error = None,
             requiresHuman = Some
               \<lparr>hi_stepId = step_id step,
                hi_prompt = or_default (cfg_prompt (config step))
                              (''Input required for step: '' @ name step),
                hi_inputType = or_default (cfg_inputType (config step)) ''text'',
                hi_options = cfg_options (config step),
                hi_metadata = cfg_metadata (config step)\<rparr>\<rparr>
      else if step_type step = ''system'' then
        Inr \<lparr>stepId = step_id step, success = True,
             data = Some (JObj [(''message'', JStr (''System step '' @ name step @ '' completed''))]),
             error = None, requiresHuman = None\<rparr>
      else if step_type step = ''agent'' then
        Inr \<lparr>stepId = step_id step, success = True,
             data = Some (JObj [(''message'', JStr (''Agent step '' @ name step @ '' completed''))]),
             error = None, requiresHuman = None\<rparr>
      else
        Inr \<lparr>stepId = step_id step, success = False, data = None,
             error = Some (''Unknown step type: '' @ step_type step), requiresHuman = None\<rparr>)"

subsection \<open>The execution loop\<close>

definition update_state :: "WorkflowEngine \<Rightarrow> nat \<Rightarrow> WorkflowState \<Rightarrow> WorkflowEngine" where
  "update_state e instanceId state = e\<lparr>states := (states e)(instanceId \<mapsto> state)\<rparr>"

text \<open>The catch block's \<open>error instanceof Error ? error.message : 'Unknown error'\<close>.\<close>

definition error_message :: "thrown \<Rightarrow> string" where
  "error_message err = (case err of JsError m \<Rightarrow> m | JsThrown v \<Rightarrow> ''Unknown error'')"

text \<open>JavaScript truthiness of an optional value: \<open>undefined\<close> and the empty string are falsy.\<close>

definition truthy :: "jsval option \<Rightarrow> bool" where
  "truthy v = (case v of None \<Rightarrow> False | Some (JStr s) \<Rightarrow> s \<noteq> [] | Some (JObj kv) \<Rightarrow> True)"

text \<open>
  The blocks of \<open>executeNextStep\<close>, each a run of assignments to the state object that the
  source closes with an event. \<open>state\<close> is the state object as the block finds it.
\<close>

definition complete_workflow :: "WorkflowEngine \<Rightarrow> nat \<Rightarrow> WorkflowState \<Rightarrow> WorkflowEngine" where
  "complete_workflow e instanceId state =
     emitEvent (update_state e instanceId (state\<lparr>status := Completed, updatedAt := clock e\<rparr>))
       instanceId workflow_completed WorkflowCompletedData"

definition running_state :: "WorkflowState \<Rightarrow> WorkflowStep \<Rightarrow> nat \<Rightarrow> WorkflowState" where
  "running_state state nextStep now =
     state\<lparr>currentStepId := Some (step_id nextStep), status := Running, updatedAt := now\<rparr>"

definition begin_step :: "WorkflowEngine \<Rightarrow> nat \<Rightarrow> WorkflowState \<Rightarrow> WorkflowStep \<Rightarrow> WorkflowEngine" where
  "begin_step e instanceId state nextStep =
     emitEvent (update_state e instanceId (running_state state nextStep (clock e)))
       instanceId step_started (StepStartedData (step_id nextStep) nextStep)"

definition pause_workflow :: "WorkflowEngine \<Rightarrow> nat \<Rightarrow> WorkflowState \<Rightarrow> HumanInput \<Rightarrow> WorkflowEngine" where
  "pause_workflow e instanceId state h =
     emitEvent
       ((update_state e instanceId (state\<lparr>status := Paused, updatedAt := clock e\<rparr>))
          \<lparr>pendingHumanInputs := (pendingHumanInputs e)(instanceId \<mapsto> h)\<rparr>)
       instanceId human_input_required (HumanInputRequiredData h)"

definition complete_step ::
  "WorkflowEngine \<Rightarrow> nat \<Rightarrow> WorkflowState \<Rightarrow> WorkflowStep \<Rightarrow> StepResult \<Rightarrow> WorkflowEngine" where
  "complete_step e instanceId state nextStep result =
     emitEvent
       (update_state e instanceId
          (state\<lparr>completedSteps := completedSteps state @ [step_id nextStep],
                 stepData := (if truthy (data result)
                              then (stepData state)(step_id nextStep := data result)
                              else stepData state),
                 updatedAt := clock e\<rparr>))
       instanceId step_completed (StepCompletedData (step_id nextStep) (data result))"

definition fail_workflow ::
  "WorkflowEngine \<Rightarrow> nat \<Rightarrow> WorkflowState \<Rightarrow> string \<Rightarrow> string option \<Rightarrow> WorkflowEngine" where
  "fail_workflow e instanceId state sid err =
     emitEvent (update_state e instanceId (state\<lparr>status := Failed, updatedAt := clock e\<rparr>))
       instanceId workflow_failed (WorkflowFailedData sid err)"

text \<open>
  The number of steps of the instance's definition whose id is not yet completed: what the
  recursion of \<open>executeNextStep\<close> uses up.
\<close>

definition remaining :: "WorkflowEngine \<Rightarrow> nat \<Rightarrow> nat" where
  "remaining e instanceId =
     (case states e instanceId of
        None \<Rightarrow> 0
      | Some state \<Rightarrow>
          (case workflows e (workflowId state) of
             None \<Rightarrow> 0
           | Some workflow \<Rightarrow>
               length (filter (\<lambda>s. step_id s \<notin> set (completedSteps state)) (steps workflow))))"

lemma array_includes_iff: "array_includes xs x = (x \<in> set xs)"
  by (induction xs) auto

lemma findNextStep_SomeD:
  assumes "findNextStep workflow state = Some s"
  shows "s \<in> set (steps workflow)" and "step_id s \<notin> set (completedSteps state)"
proof -
  from assms obtain k where k: "k < length (steps workflow)" "step_ready state (steps workflow ! k)"
    "s = steps workflow ! k"
    unfolding findNextStep_def find_Some_iff by blast
  from k show "s \<in> set (steps workflow)" by simp
  from k show "step_id s \<notin> set (completedSteps state)"
    by (auto simp: step_ready_def array_includes_iff split: if_splits)
qed

lemma length_filter_drop:
  assumes "s \<in> set xs" and "P s" and "\<not> Q s" and "\<And>x. Q x \<Longrightarrow> P x"
  shows "length (filter Q xs) < length (filter P xs)"
  using assms(1)
proof (induction xs)
  case Nil
  then show ?case by simp
next
  case (Cons x xs)
  have le: "length (filter Q xs) \<le> length (filter P xs)"
    by (induction xs) (auto dest: assms(4))
  show ?case
  proof (cases "x = s")
    case True
    with assms(2,3) le show ?thesis by simp
  next
    case False
    with Cons have "length (filter Q xs) < length (filter P xs)" by simp
    then show ?thesis by (auto dest: assms(4))
  qed
qed

lemma remaining_complete_step:
  assumes "states e instanceId = Some state"
    and "workflows e (workflowId state) = Some workflow"
    and "findNextStep workflow state = Some nextStep"
  shows "remaining
           (complete_step (begin_step e instanceId state nextStep) instanceId
              (running_state state nextStep (clock e)) nextStep result) instanceId
         < remaining e instanceId"
proof -
  let ?P = "\<lambda>s. step_id s \<notin> set (completedSteps state)"
  let ?Q = "\<lambda>s. step_id s \<notin> set (completedSteps state @ [step_id nextStep])"
  have "length (filter ?Q (steps workflow)) < length (filter ?P (steps workflow))"
    by (rule length_filter_drop [where s = nextStep])
       (use findNextStep_SomeD [OF assms(3)] in auto)
  with assms(1,2) show ?thesis
    by (simp add: remaining_def complete_step_def begin_step_def running_state_def
        update_state_def emitEvent_def)
qed

function executeNextStep :: "executor \<Rightarrow> WorkflowEngine \<Rightarrow> nat \<Rightarrow> WorkflowEngine" where
  "executeNextStep ex e instanceId =
     (case states e instanceId of
        None \<Rightarrow> e
      | Some state \<Rightarrow>
         (case workflows e (workflowId state) of
            None \<Rightarrow> e
          | Some workflow \<Rightarrow>
             (case findNextStep workflow state of
                None \<Rightarrow> complete_workflow e instanceId state
              | Some nextStep \<Rightarrow>
                 (case ex nextStep (running_state state nextStep (clock e)) of
                    Inl err \<Rightarrow>
                      fail_workflow (begin_step e instanceId state nextStep) instanceId
                        (running_state state nextStep (clock e)) (step_id nextStep)
                        (Some (error_message err))
                  | Inr result \<Rightarrow>
                     (case requiresHuman result of
                        Some h \<Rightarrow>
                          pause_workflow (begin_step e instanceId state nextStep) instanceId
                            (running_state state nextStep (clock e)) h
                      | None \<Rightarrow>
                          if success result then
                            executeNextStep ex
                              (complete_step (begin_step e instanceId state nextStep) instanceId
                                 (running_state state nextStep (clock e)) nextStep result)
                              instanceId
                          else
                            fail_workflow (begin_step e instanceId state nextStep) instanceId
                              (running_state state nextStep (clock e)) (step_id nextStep)
                              (error result))))))"
  by pat_completeness auto
termination
  by (relation "measure (\<lambda>(ex, e, instanceId). remaining e instanceId)")
     (auto intro: remaining_complete_step)

text \<open>
  The same recursion, recording the engine after every block it runs, in order: the
  states an observer of the instance can see while \<open>executeNextStep\<close> is under way.
\<close>

function executeNextStep_trace :: "executor \<Rightarrow> WorkflowEngine \<Rightarrow> nat \<Rightarrow> WorkflowEngine list" where
  "executeNextStep_trace ex e instanceId =
     (case states e instanceId of
        None \<Rightarrow> []
      | Some state \<Rightarrow>
         (case workflows e (workflowId state) of
            None \<Rightarrow> []
          | Some workflow \<Rightarrow>
             (case findNextStep workflow state of
                None \<Rightarrow> [complete_workflow e instanceId state]
              | Some nextStep \<Rightarrow>
                 begin_step e instanceId state nextStep #
                 (case ex nextStep (running_state state nextStep (clock e)) of
                    Inl err \<Rightarrow>
                      [fail_workflow (begin_step e instanceId state nextStep) instanceId
                         (running_state state nextStep (clock e)) (step_id nextStep)
                         (Some (error_message err))]
                  | Inr result \<Rightarrow>
                     (case requiresHuman result of
                        Some h \<Rightarrow>
                          [pause_workflow (begin_step e instanceId state nextStep) instanceId
                             (running_state state nextStep (clock e)) h]
                      | None \<Rightarrow>
                          if success result then
                            complete_step (begin_step e instanceId state nextStep) instanceId
                              (running_state state nextStep (clock e)) nextStep result #
                            executeNextStep_trace ex
                              (complete_step (begin_step e instanceId state nextStep) instanceId
                                 (running_state state nextStep (clock e)) nextStep result)
                              instanceId
                          else
                            [fail_workflow (begin_step e instanceId state nextStep) instanceId
                               (running_state state nextStep (clock e)) (step_id nextStep)
                               (error result)])))))"
  by pat_completeness auto
termination
  by (relation "measure (\<lambda>(ex, e, instanceId). remaining e instanceId)")
     (auto intro: remaining_complete_step)

subsection \<open>The public operations\<close>

text \<open>
  An operation returns what the caller gets (the value, or what was thrown) together with
  the engine as the call leaves it.
\<close>

definition create_instance ::
  "WorkflowEngine \<Rightarrow> string \<Rightarrow> (string \<rightharpoonup> jsval) option \<Rightarrow> WorkflowEngine" where
  "create_instance e wid initialData =
     (update_state e (uuids e)
        \<lparr>state_id = uuids e, workflowId = wid, currentStepId = None, completedSteps = [],
         stepData = (case initialData of None \<Rightarrow> Map.empty | Some d \<Rightarrow> d),
         status = Pending, createdAt = clock e, updatedAt = clock e\<rparr>)
     \<lparr>uuids := Suc (uuids e)\<rparr>"

definition startWorkflow ::
  "executor \<Rightarrow> WorkflowEngine \<Rightarrow> string \<Rightarrow> (string \<rightharpoonup> jsval) option
     \<Rightarrow> (thrown + nat) \<times> WorkflowEngine" where
  "startWorkflow ex e wid initialData =
     (case workflows e wid of
        None \<Rightarrow> (Inl (JsError (''Workflow '' @ wid @ '' not found'')), e)
      | Some workflow \<Rightarrow>
          (Inr (uuids e), executeNextStep ex (create_instance e wid initialData) (uuids e)))"

text \<open>
  The object spread \<open>{ ...x, humanInput: input }\<close>: the own properties of \<open>x\<close> (none
  for \<open>undefined\<close>; the characters by index for a string), then the property set.
\<close>

function decimal :: "nat \<Rightarrow> string" where
  "decimal n = (if n < 10 then [char_of (48 + n)] else decimal (n div 10) @ [char_of (48 + n mod 10)])"
  by pat_completeness auto
termination
  by (relation "measure id") auto

definition own_properties :: "jsval option \<Rightarrow> (string \<times> jsval) list" where
  "own_properties x =
     (case x of
        None \<Rightarrow> []
      | Some (JObj kv) \<Rightarrow> kv
      | Some (JStr s) \<Rightarrow> map (\<lambda>(k, c). (decimal k, JStr [c])) (enumerate 0 s))"

fun set_property :: "(string \<times> jsval) list \<Rightarrow> string \<Rightarrow> jsval \<Rightarrow> (string \<times> jsval) list" where
  "set_property [] k v = [(k, v)]"
| "set_property ((k', v') # kv) k v =
     (if k' = k then (k, v) # kv else (k', v') # set_property kv k v)"

definition accept_input ::
  "WorkflowEngine \<Rightarrow> nat \<Rightarrow> WorkflowState \<Rightarrow> HumanInput \<Rightarrow> jsval \<Rightarrow> WorkflowEngine" where
  "accept_input e instanceId state pendingInput input =
     emitEvent
       ((update_state e instanceId
           (state\<lparr>stepData := (stepData state)(hi_stepId pendingInput \<mapsto>
                      JObj (set_property (own_properties (stepData state (hi_stepId pendingInput)))
                              ''humanInput'' input)),
                  completedSteps := completedSteps state @ [hi_stepId pendingInput],
                  status := Running,
                  updatedAt := clock e\<rparr>))
          \<lparr>pendingHumanInputs := (pendingHumanInputs e)(instanceId := None)\<rparr>)
       instanceId step_completed (StepCompletedData (hi_stepId pendingInput) (Some input))"

definition no_pending_input :: thrown where
  "no_pending_input = JsError ''No pending human input for this workflow''"

definition provideHumanInput ::
  "executor \<Rightarrow> WorkflowEngine \<Rightarrow> nat \<Rightarrow> jsval \<Rightarrow> (thrown + unit) \<times> WorkflowEngine" where
  "provideHumanInput ex e instanceId input =
     (case states e instanceId of
        None \<Rightarrow> (Inl no_pending_input, e)
      | Some state \<Rightarrow>
         (case pendingHumanInputs e instanceId of
            None \<Rightarrow> (Inl no_pending_input, e)
          | Some pendingInput \<Rightarrow>
              if status state \<noteq> Paused then (Inl no_pending_input, e)
              else (Inr (), executeNextStep ex
                              (accept_input e instanceId state pendingInput input) instanceId)))"

definition getWorkflowState :: "WorkflowEngine \<Rightarrow> nat \<Rightarrow> WorkflowState option" where
  "getWorkflowState e instanceId = states e instanceId"

definition getPendingHumanInput :: "WorkflowEngine \<Rightarrow> nat \<Rightarrow> HumanInput option" where
  "getPendingHumanInput e instanceId = pendingHumanInputs e instanceId"

subsection \<open>Histories of an engine\<close>

text \<open>
  A call of a public operation, and the engines it passes through: the engine after the
  call's own assignments, then every block of the execution loop it drives. A call that
  throws passes through none. Calls are taken one after another, each run to its end
  (one continuation at a time, as the engine's design assumes).
\<close>

datatype call =
  RegisterWorkflow WorkflowDefinition
  | StartWorkflow string "(string \<rightharpoonup> jsval) option"
  | ProvideHumanInput nat jsval

definition startWorkflow_trace ::
  "executor \<Rightarrow> WorkflowEngine \<Rightarrow> string \<Rightarrow> (string \<rightharpoonup> jsval) option \<Rightarrow> WorkflowEngine list" where
  "startWorkflow_trace ex e wid initialData =
     (case workflows e wid of
        None \<Rightarrow> []
      | Some workflow \<Rightarrow>
          create_instance e wid initialData #
          executeNextStep_trace ex (create_instance e wid initialData) (uuids e))"

definition provideHumanInput_trace ::
  "executor \<Rightarrow> WorkflowEngine \<Rightarrow> nat \<Rightarrow> jsval \<Rightarrow> WorkflowEngine list" where
  "provideHumanInput_trace ex e instanceId input =
     (case states e instanceId of
        None \<Rightarrow> []
      | Some state \<Rightarrow>
         (case pendingHumanInputs e instanceId of
            None \<Rightarrow> []
          | Some pendingInput \<Rightarrow>
              if status state \<noteq> Paused then []
              else accept_input e instanceId state pendingInput input #
                   executeNextStep_trace ex
                     (accept_input e instanceId state pendingInput input) instanceId))"

fun call_trace :: "executor \<Rightarrow> WorkflowEngine \<Rightarrow> call \<Rightarrow> WorkflowEngine list" where
  "call_trace ex e (RegisterWorkflow workflow) = [registerWorkflow e workflow]"
| "call_trace ex e (StartWorkflow wid initialData) = startWorkflow_trace ex e wid initialData"
| "call_trace ex e (ProvideHumanInput instanceId input) =
     provideHumanInput_trace ex e instanceId input"

fun run_calls :: "executor \<Rightarrow> WorkflowEngine \<Rightarrow> call list \<Rightarrow> WorkflowEngine list" where
  "run_calls ex e [] = []"
| "run_calls ex e (c # cs) =
     call_trace ex e c @ run_calls ex (last (e # call_trace ex e c)) cs"

text \<open>Every engine a fresh engine passes through under a sequence of calls, in order.\<close>

definition engine_history :: "executor \<Rightarrow> call list \<Rightarrow> WorkflowEngine list" where
  "engine_history ex cs = new_WorkflowEngine # run_calls ex new_WorkflowEngine cs"

definition status_of :: "WorkflowEngine \<Rightarrow> nat \<Rightarrow> status option" where
  "status_of e instanceId = map_option status (states e instanceId)"

section \<open>LLM types (quality/llm/types.ts)\<close>

datatype role = system | user | assistant

record LLMMessage =
  role :: role
  content :: string

record LLMOptions =
  temperature :: "real option"
  maxTokens :: "nat option"
  model :: "string option"
  timeout :: "nat option"

record Usage =
  promptTokens :: nat
  completionTokens :: nat
  totalTokens :: nat

record LLMResponse =
  resp_content :: string
  usage :: "Usage option"
  resp_model :: string
  provider :: string

record LLMProviderConfig =
  apiKey :: string
  baseUrl :: "string option"
  defaultModel :: "string option"
  defaultOptions :: "LLMOptions option"

section \<open>Provider adapters (quality/llm/providers)\<close>

text \<open>
  A provider object as the manager sees it: \<open>BaseLLMProvider\<close>'s \<open>name\<close> and its abstract
  method \<open>chat\<close>, which returns a response or throws. The backend behind an adapter is
  not part of the model: what a call gives is a function of the call's arguments.
\<close>

record BaseLLMProvider =
  provider_name :: string
  provider_chat :: "LLMMessage list \<Rightarrow> LLMOptions option \<Rightarrow> thrown + LLMResponse"

subsection \<open>GeminiProvider\<close>

text \<open>
  What the adapter hands to the Gemini SDK (\<open>startChat\<close> with the history and the
  generation config, then \<open>sendMessage\<close>), and what it reads from the SDK's answer.
\<close>

record GeminiContent =
  g_role :: string
  g_text :: string

record GeminiRequest =
  g_model :: string
  g_history :: "GeminiContent list"
  g_temperature :: real
  g_maxOutputTokens :: nat
  g_message :: string

record GeminiUsageMetadata =
  promptTokenCount :: "nat option"
  candidatesTokenCount :: "nat option"
  totalTokenCount :: "nat option"

record GeminiResult =
  g_response_text :: string
  usageMetadata :: "GeminiUsageMetadata option"

text \<open>
  The SDK is an optional dependency: absent (\<open>importGemini\<close> returns \<open>null\<close>), or present,
  and then \<open>sendMessage\<close> on the chat that \<open>startChat\<close> opened is a function from the
  request to a result or a thrown value.
\<close>

type_synonym gemini_sdk = "(GeminiRequest \<Rightarrow> thrown + GeminiResult) option"

definition gemini_supportedModels :: "string list" where
  "gemini_supportedModels = [''gemini-1.5-pro'', ''gemini-1.5-flash'', ''gemini-1.0-pro'']"

text \<open>
  \<open>getModel\<close> of \<open>BaseLLMProvider\<close>, with the constructor's default
  \<open>defaultModel: 'gemini-1.5-pro'\<close> that the given config overrides.
\<close>

definition gemini_getModel :: "LLMProviderConfig \<Rightarrow> LLMOptions \<Rightarrow> string" where
  "gemini_getModel cfg opts =
     or_default (model opts)
       (or_default (Some (case defaultModel cfg of None \<Rightarrow> ''gemini-1.5-pro'' | Some d \<Rightarrow> d))
          (hd gemini_supportedModels))"

text \<open>
  The conversion loop of \<open>chat\<close> over the messages, with its two variables \<open>history\<close>
  and \<open>lastMessage\<close>.
\<close>

fun gemini_convert ::
  "LLMMessage list \<Rightarrow> GeminiContent list \<Rightarrow> string \<Rightarrow> GeminiContent list \<times> string" where
  "gemini_convert [] history lastMessage = (history, lastMessage)"
| "gemini_convert (message # rest) history lastMessage =
     (if role message = system then gemini_convert rest history lastMessage
      else if role message = user then gemini_convert rest history (content message)
      else if lastMessage \<noteq> [] then
        gemini_convert rest
          (history @ [\<lparr>g_role = ''user'', g_text = lastMessage\<rparr>,
                      \<lparr>g_role = ''model'', g_text = content message\<rparr>]) []
      else
        gemini_convert rest (history @ [\<lparr>g_role = ''model'', g_text = content message\<rparr>])
          lastMessage)"

text \<open>\<open>a ?? b ?? c\<close> on optional numbers.\<close>

definition nullish :: "'a option \<Rightarrow> 'a option \<Rightarrow> 'a \<Rightarrow> 'a" where
  "nullish a b c = (case a of Some x \<Rightarrow> x | None \<Rightarrow> (case b of Some y \<Rightarrow> y | None \<Rightarrow> c))"

text \<open>\<open>n || 0\<close> on an optional number.\<close>

definition or_zero :: "nat option \<Rightarrow> nat" where
  "or_zero n = (case n of None \<Rightarrow> 0 | Some k \<Rightarrow> k)"

text \<open>
  The request \<open>chat\<close> builds, or the \<open>TypeError\<close> of \<open>messages[messages.length - 1].content\<close>
  on an empty message list.
\<close>

definition gemini_request ::
  "LLMProviderConfig \<Rightarrow> LLMMessage list \<Rightarrow> LLMOptions \<Rightarrow> thrown + GeminiRequest" where
  "gemini_request cfg messages opts =
     (let (history, lastMessage) = gemini_convert messages [] [] in
      if lastMessage = [] \<and> messages = [] then
        Inl (JsError ''Cannot read properties of undefined (reading 'content')'')
      else
        Inr \<lparr>g_model = gemini_getModel cfg opts,
             g_history = history,
             g_temperature =
               nullish (temperature opts)
                 (case defaultOptions cfg of None \<Rightarrow> None | Some d \<Rightarrow> temperature d) (1 / 10),
             g_maxOutputTokens =
               nullish (maxTokens opts)
                 (case defaultOptions cfg of None \<Rightarrow> None | Some d \<Rightarrow> maxTokens d) 1000,
             g_message = (if lastMessage \<noteq> [] then lastMessage else content (last messages))\<rparr>)"

definition gemini_wrap :: "thrown \<Rightarrow> thrown" where
  "gemini_wrap err = JsError (''Gemini API error: '' @ error_message err)"

definition gemini_chat ::
  "LLMProviderConfig \<Rightarrow> gemini_sdk \<Rightarrow> LLMMessage list \<Rightarrow> LLMOptions option
     \<Rightarrow> thrown + LLMResponse" where
  "gemini_chat cfg sdk messages options =
     (case sdk of
        None \<Rightarrow>
          Inl (JsError (''Google Generative AI SDK not installed. '' @
                        ''To use Gemini provider, run: npm install @google/generative-ai''))
      | Some send \<Rightarrow>
          (let opts = (case options of
                         None \<Rightarrow> \<lparr>temperature = None, maxTokens = None, model = None,
                                   timeout = None\<rparr>
                       | Some given \<Rightarrow> given) in
           case gemini_request cfg messages opts of
             Inl err \<Rightarrow> Inl (gemini_wrap err)
           | Inr request \<Rightarrow>
               (case send request of
                  Inl err \<Rightarrow> Inl (gemini_wrap err)
                | Inr result \<Rightarrow>
                    Inr \<lparr>resp_content = g_response_text result,
                         usage = Some
                           \<lparr>promptTokens =
                              or_zero (case usageMetadata result of None \<Rightarrow> None
                                       | Some u \<Rightarrow> promptTokenCount u),
                            completionTokens =
                              or_zero (case usageMetadata result of None \<Rightarrow> None
                                       | Some u \<Rightarrow> candidatesTokenCount u),
                            totalTokens =
                              or_zero (case usageMetadata result of None \<Rightarrow> None
                                       | Some u \<Rightarrow> totalTokenCount u)\<rparr>,
                         resp_model = gemini_getModel cfg opts,
                         provider = ''gemini''\<rparr>)))"

definition GeminiProvider :: "LLMProviderConfig \<Rightarrow> gemini_sdk \<Rightarrow> BaseLLMProvider" where
  "GeminiProvider cfg sdk = \<lparr>provider_name = ''gemini'', provider_chat = gemini_chat cfg sdk\<rparr>"

section \<open>The dispatch manager (quality/llm/LLMManager.ts)\<close>

datatype LLMProviderType = openai | anthropic | gemini

text \<open>
  The manager's fields. \<open>providers\<close> is a JavaScript \<open>Map\<close>: its entries in insertion
  order, with distinct keys.
\<close>

record LLMManager =
  providers :: "(LLMProviderType \<times> BaseLLMProvider) list"
  primaryProvider :: LLMProviderType
  fallbackProviders :: "LLMProviderType list"

definition providers_get :: "LLMManager \<Rightarrow> LLMProviderType \<Rightarrow> BaseLLMProvider option" where
  "providers_get m p = map_of (providers m) p"

definition providers_has :: "LLMManager \<Rightarrow> LLMProviderType \<Rightarrow> bool" where
  "providers_has m p = (map_of (providers m) p \<noteq> None)"

definition getAvailableProviders :: "LLMManager \<Rightarrow> LLMProviderType list" where
  "getAvailableProviders m = map fst (providers m)"


text \<open>
  \<open>initialize\<close>, on a manager just constructed. Its first loop asks the provider factory
  for the adapters that are configured and available; what it manages to construct depends
  on the installed SDKs, so the loop's outcome is the parameter \<open>constructed\<close>: the
  entries it sets, in order.
\<close>

definition no_providers_message :: string where
  "no_providers_message =
     ''No LLM providers available. Please install at least one SDK:'' @ [CHR 0x0A] @
     ''  - OpenAI: npm install openai'' @ [CHR 0x0A] @
     ''  - Anthropic: npm install @anthropic-ai/sdk'' @ [CHR 0x0A] @
     ''  - Gemini: npm install @google/generative-ai''"

definition initialize ::
  "LLMManager \<Rightarrow> (LLMProviderType \<times> BaseLLMProvider) list \<Rightarrow> thrown + LLMManager" where
  "initialize m constructed =
     (if length constructed = 0 then Inl (JsError no_providers_message)
      else if \<not> providers_has (m\<lparr>providers := constructed\<rparr>) (primaryProvider m) then
        Inr (m\<lparr>providers := constructed,
               primaryProvider := hd (getAvailableProviders (m\<lparr>providers := constructed\<rparr>))\<rparr>)
      else Inr (m\<lparr>providers := constructed\<rparr>))"

definition providersToTry :: "LLMManager \<Rightarrow> LLMProviderType list" where
  "providersToTry m = primaryProvider m # filter (providers_has m) (fallbackProviders m)"

text \<open>The template string's \<open>${error}\<close>: \<open>String(error)\<close>.\<close>

definition to_string :: "thrown \<Rightarrow> string" where
  "to_string err =
     (case err of
        JsError msg \<Rightarrow> (if msg = [] then ''Error'' else ''Error: '' @ msg)
      | JsThrown (JStr s) \<Rightarrow> s
      | JsThrown (JObj kv) \<Rightarrow> ''[object Object]'')"

text \<open>
  The \<open>for\<close> loop of \<open>chat\<close> over the providers still to try; \<open>lastProvider\<close> is
  \<open>providersToTry[providersToTry.length - 1]\<close>. It returns what \<open>chat\<close> returns or
  throws, and the provider types whose \<open>chat\<close> it called, in order.
\<close>

fun try_providers ::
  "LLMManager \<Rightarrow> LLMProviderType \<Rightarrow> LLMMessage list \<Rightarrow> LLMOptions option \<Rightarrow>
     LLMProviderType list \<Rightarrow> (thrown + LLMResponse) \<times> LLMProviderType list" where
  "try_providers m lastProvider messages options [] =
     (Inl (JsError ''No LLM providers available''), [])"
| "try_providers m lastProvider messages options (providerType # rest) =
     (case providers_get m providerType of
        None \<Rightarrow> try_providers m lastProvider messages options rest
      | Some adapter \<Rightarrow>
          (case provider_chat adapter messages options of
             Inr response \<Rightarrow> (Inr response, [providerType])
           | Inl err \<Rightarrow>
               if providerType = lastProvider then
                 (Inl (JsError (''All available LLM providers failed. Last error: '' @
                                to_string err)), [providerType])
               else
                 (fst (try_providers m lastProvider messages options rest),
                  providerType # snd (try_providers m lastProvider messages options rest))))"

text \<open>
  \<open>chat\<close>: the outcome, the providers called, and the manager as the call leaves it.
\<close>

record chat_outcome =
  returned :: "thrown + LLMResponse"
  attempted :: "LLMProviderType list"
  manager :: LLMManager

definition chat :: "LLMManager \<Rightarrow> LLMMessage list \<Rightarrow> LLMOptions option \<Rightarrow> chat_outcome" where
  "chat m messages options =
     (let r = try_providers m (last (providersToTry m)) messages options (providersToTry m)
      in \<lparr>returned = fst r, attempted = snd r, manager = m\<rparr>)"

definition prompt_chat :: "LLMManager \<Rightarrow> string \<Rightarrow> LLMOptions option \<Rightarrow> chat_outcome" where
  "prompt_chat m prompt_text options = chat m [\<lparr>role = user, content = prompt_text\<rparr>] options"

definition switchPrimaryProvider :: "LLMManager \<Rightarrow> LLMProviderType \<Rightarrow> (thrown + unit) \<times> LLMManager" where
  "switchPrimaryProvider m p =
     (if \<not> providers_has m p then
        (Inl (JsError (''Provider '' @ (case p of openai \<Rightarrow> ''openai'' | anthropic \<Rightarrow> ''anthropic''
                                         | gemini \<Rightarrow> ''gemini'') @ '' is not available'')), m)
      else (Inr (), m\<lparr>primaryProvider := p\<rparr>))"

section \<open>Properties and examples\<close>

subsection \<open>Status transitions and the pending-input invariant\<close>

text \<open>
  One observable step of an instance's status (\<open>None\<close>: the instance does not exist).
  Besides staying as it is, the status moves from pending to running or to completed, from
  running to paused, completed or failed, and from paused to running; completed and failed
  are final.
\<close>

fun status_step :: "status option \<Rightarrow> status option \<Rightarrow> bool" where
  "status_step None s' = (s' = None \<or> s' = Some Pending)"
| "status_step (Some Pending) s' = (s' = Some Pending \<or> s' = Some Running \<or> s' = Some Completed)"
| "status_step (Some Running) s' =
     (s' = Some Running \<or> s' = Some Paused \<or> s' = Some Completed \<or> s' = Some Failed)"
| "status_step (Some Paused) s' = (s' = Some Paused \<or> s' = Some Running)"
| "status_step (Some Completed) s' = (s' = Some Completed)"
| "status_step (Some Failed) s' = (s' = Some Failed)"








subsection \<open>The dispatch manager\<close>

text \<open>A manager after a successful \<open>initialize\<close>: its primary provider is constructed.\<close>

definition initialized :: "LLMManager \<Rightarrow> bool" where
  "initialized m = providers_has m (primaryProvider m)"

text \<open>What calling the provider of type \<open>p\<close> gives on this input, if \<open>p\<close> is constructed.\<close>

definition call_result ::
  "LLMManager \<Rightarrow> LLMMessage list \<Rightarrow> LLMOptions option \<Rightarrow> LLMProviderType
     \<Rightarrow> (thrown + LLMResponse) option" where
  "call_result m messages options p =
     map_option (\<lambda>adapter. provider_chat adapter messages options) (providers_get m p)"

definition succeeds ::
  "LLMManager \<Rightarrow> LLMMessage list \<Rightarrow> LLMOptions option \<Rightarrow> LLMProviderType \<Rightarrow> bool" where
  "succeeds m messages options p =
     (case call_result m messages options p of Some (Inr response) \<Rightarrow> True | _ \<Rightarrow> False)"

subsection \<open>Example data\<close>

definition no_config :: StepConfig where
  "no_config = \<lparr>cfg_prompt = None, cfg_inputType = None, cfg_options = None, cfg_metadata = None\<rparr>"

text \<open>The workflow of examples/simple-workflow.ts: system, human, system, in a line.\<close>

definition simpleWorkflow :: WorkflowDefinition where
  "simpleWorkflow =
     \<lparr>def_id = ''simple-approval'', def_name = ''Simple Approval Workflow'',
      steps =
        [\<lparr>step_id = ''collect-info'', name = ''Collect Information'', step_type = ''system'',
          config = no_config, dependencies = None\<rparr>,
         \<lparr>step_id = ''human-review'', name = ''Human Review'', step_type = ''human'',
          config = \<lparr>cfg_prompt = Some ''Please review the collected information. Do you approve? (yes/no)'',
                    cfg_inputType = Some ''choice'', cfg_options = Some [''yes'', ''no''],
                    cfg_metadata = None\<rparr>,
          dependencies = Some [''collect-info'']\<rparr>,
         \<lparr>step_id = ''final-step'', name = ''Process Result'', step_type = ''system'',
          config = no_config, dependencies = Some [''human-review'']\<rparr>]\<rparr>"


text \<open>A definition whose two steps depend on each other.\<close>

definition cyclicWorkflow :: WorkflowDefinition where
  "cyclicWorkflow =
     \<lparr>def_id = ''c'', def_name = ''c'',
      steps = [\<lparr>step_id = ''a'', name = ''A'', step_type = ''system'',
                config = no_config, dependencies = Some [''b'']\<rparr>,
               \<lparr>step_id = ''b'', name = ''B'', step_type = ''system'',
                config = no_config, dependencies = Some [''a'']\<rparr>]\<rparr>"


definition answering_adapter :: "string \<Rightarrow> string \<Rightarrow> BaseLLMProvider" where
  "answering_adapter n answer =
     \<lparr>provider_name = n,
      provider_chat = (\<lambda>messages options.
        Inr \<lparr>resp_content = answer, usage = None, resp_model = ''m'', provider = n\<rparr>)\<rparr>"

definition gemini_config :: LLMProviderConfig where
  "gemini_config = \<lparr>apiKey = ''k'', baseUrl = None, defaultModel = None, defaultOptions = None\<rparr>"

definition hello :: "LLMMessage list" where
  "hello = [\<lparr>role = system, content = ''Answer in one word.''\<rparr>,
            \<lparr>role = user, content = ''Hello''\<rparr>]"



text \<open>
  A manager whose primary (gemini, whose calls throw) is also its last fallback, behind
  anthropic (whose calls answer).
\<close>

definition repeated_primary_manager :: LLMManager where
  "repeated_primary_manager =
     \<lparr>providers = [(gemini, GeminiProvider gemini_config
                               (Some (\<lambda>request. Inl (JsError ''quota exceeded'')))),
                   (anthropic, answering_adapter ''anthropic'' ''Hi'')],
      primaryProvider = gemini,
      fallbackProviders = [anthropic, gemini]\<rparr>"

section \<open>Theorems\<close>

declare executeNextStep.simps [simp del] executeNextStep_trace.simps [simp del]

subsection \<open>Step selection\<close>

lemma step_ready_qualifies: "step_ready state step = qualifies state step"
  by (auto simp: step_ready_def qualifies_def declared_dependencies_def array_includes_iff
      list_all_iff split: option.splits)

lemma executeNextStep_none:
  assumes "states e i = Some state" and "workflows e (workflowId state) = Some workflow"
    and "findNextStep workflow state = None"
  shows "executeNextStep ex e i = complete_workflow e i state"
  using assms by (subst executeNextStep.simps) simp

lemma block_status [simp]:
  "status_of (complete_workflow e i state) = (status_of e)(i \<mapsto> Completed)"
  "status_of (begin_step e i state s) = (status_of e)(i \<mapsto> Running)"
  "status_of (pause_workflow e i state h) = (status_of e)(i \<mapsto> Paused)"
  "status_of (complete_step e i state s r) = (status_of e)(i \<mapsto> status state)"
  "status_of (fail_workflow e i state sid err) = (status_of e)(i \<mapsto> Failed)"
  "status_of (accept_input e i state p x) = (status_of e)(i \<mapsto> Running)"
  "status_of (create_instance e wid d) = (status_of e)(uuids e \<mapsto> Pending)"
  "status_of (registerWorkflow e w) = status_of e"
  by (simp_all add: fun_eq_iff status_of_def complete_workflow_def begin_step_def
      pause_workflow_def complete_step_def fail_workflow_def accept_input_def
      create_instance_def registerWorkflow_def running_state_def emitEvent_def update_state_def)

lemma block_pending [simp]:
  "pendingHumanInputs (complete_workflow e i state) = pendingHumanInputs e"
  "pendingHumanInputs (begin_step e i state s) = pendingHumanInputs e"
  "pendingHumanInputs (pause_workflow e i state h) = (pendingHumanInputs e)(i \<mapsto> h)"
  "pendingHumanInputs (complete_step e i state s r) = pendingHumanInputs e"
  "pendingHumanInputs (fail_workflow e i state sid err) = pendingHumanInputs e"
  "pendingHumanInputs (accept_input e i state p x) = (pendingHumanInputs e)(i := None)"
  "pendingHumanInputs (create_instance e wid d) = pendingHumanInputs e"
  "pendingHumanInputs (registerWorkflow e w) = pendingHumanInputs e"
  by (simp_all add: complete_workflow_def begin_step_def
      pause_workflow_def complete_step_def fail_workflow_def accept_input_def
      create_instance_def registerWorkflow_def emitEvent_def update_state_def)

lemma block_uuids [simp]:
  "uuids (complete_workflow e i state) = Suc (uuids e)"
  "uuids (begin_step e i state s) = Suc (uuids e)"
  "uuids (pause_workflow e i state h) = Suc (uuids e)"
  "uuids (complete_step e i state s r) = Suc (uuids e)"
  "uuids (fail_workflow e i state sid err) = Suc (uuids e)"
  "uuids (accept_input e i state p x) = Suc (uuids e)"
  "uuids (create_instance e wid d) = Suc (uuids e)"
  "uuids (registerWorkflow e w) = uuids e"
  by (simp_all add: complete_workflow_def begin_step_def
      pause_workflow_def complete_step_def fail_workflow_def accept_input_def
      create_instance_def registerWorkflow_def emitEvent_def update_state_def)

lemma status_running_state [simp]: "status (running_state state s now) = Running"
  by (simp add: running_state_def)

text \<open>
  C1. Next-step selection returns the first step, in the declared order, whose id is not
  completed and whose declared dependencies are all completed; a step without
  dependencies qualifies as soon as it is not completed; and when no step qualifies, the
  loop marks the instance completed (its only act is the \<open>workflow_completed\<close> block).
\<close>

theorem findNextStep_first_qualifying:
  "(findNextStep workflow state = Some s \<longleftrightarrow>
      (\<exists>k < length (steps workflow). steps workflow ! k = s \<and> qualifies state s \<and>
         (\<forall>j < k. \<not> qualifies state (steps workflow ! j)))) \<and>
   (dependencies s' = None \<longrightarrow> step_id s' \<notin> set (completedSteps state) \<longrightarrow> qualifies state s') \<and>
   ((\<forall>x \<in> set (steps workflow). \<not> qualifies state x) \<longrightarrow>
      states e i = Some state \<longrightarrow> workflows e (workflowId state) = Some workflow \<longrightarrow>
      findNextStep workflow state = None \<and>
      executeNextStep ex e i = complete_workflow e i state \<and>
      status_of (executeNextStep ex e i) i = Some Completed)"
proof (intro conjI impI)
  show "findNextStep workflow state = Some s \<longleftrightarrow>
      (\<exists>k < length (steps workflow). steps workflow ! k = s \<and> qualifies state s \<and>
         (\<forall>j < k. \<not> qualifies state (steps workflow ! j)))"
    by (auto simp: findNextStep_def find_Some_iff step_ready_qualifies)
next
  assume "dependencies s' = None" and "step_id s' \<notin> set (completedSteps state)"
  then show "qualifies state s'" by (simp add: qualifies_def declared_dependencies_def)
next
  assume none: "\<forall>x \<in> set (steps workflow). \<not> qualifies state x"
    and st: "states e i = Some state" and wf: "workflows e (workflowId state) = Some workflow"
  from none show f: "findNextStep workflow state = None"
    by (simp add: findNextStep_def find_None_iff step_ready_qualifies)
  from executeNextStep_none [OF st wf f]
  show "executeNextStep ex e i = complete_workflow e i state" .
  then show "status_of (executeNextStep ex e i) i = Some Completed" by simp
qed

theorem findNextStep_first_qualifying_witness:
  "findNextStep cyclicWorkflow
     \<lparr>state_id = 0, workflowId = ''c'', currentStepId = None, completedSteps = [],
      stepData = Map.empty, status = Pending, createdAt = 0, updatedAt = 0\<rparr> = None \<and>
   status_of
     (executeNextStep executeStep
        (create_instance (registerWorkflow new_WorkflowEngine cyclicWorkflow) ''c'' None) 0) 0
     = Some Completed \<and>
   findNextStep simpleWorkflow
     \<lparr>state_id = 0, workflowId = ''simple-approval'', currentStepId = None,
      completedSteps = [''collect-info''], stepData = Map.empty, status = Running,
      createdAt = 0, updatedAt = 0\<rparr> = Some (steps simpleWorkflow ! 1)"
proof -
  let ?st = "\<lparr>state_id = 0, workflowId = ''c'', currentStepId = None, completedSteps = [],
      stepData = Map.empty, status = Pending, createdAt = 0, updatedAt = 0\<rparr>"
  let ?e = "create_instance (registerWorkflow new_WorkflowEngine cyclicWorkflow) ''c'' None"
  let ?su = "\<lparr>state_id = 0, workflowId = ''simple-approval'', currentStepId = None,
      completedSteps = [''collect-info''], stepData = Map.empty, status = Running,
      createdAt = 0, updatedAt = 0\<rparr>"
  have 1: "\<forall>x \<in> set (steps cyclicWorkflow). \<not> qualifies ?st x"
    by (simp add: cyclicWorkflow_def qualifies_def declared_dependencies_def)
  have 2: "states ?e 0 = Some ?st"
    by (simp add: create_instance_def registerWorkflow_def new_WorkflowEngine_def update_state_def)
  have 3: "workflows ?e (workflowId ?st) = Some cyclicWorkflow"
    by (simp add: create_instance_def registerWorkflow_def new_WorkflowEngine_def update_state_def
        cyclicWorkflow_def)
  have 4: "(1::nat) < length (steps simpleWorkflow)" by (simp add: simpleWorkflow_def)
  have 5: "qualifies ?su (steps simpleWorkflow ! 1)"
    by (simp add: simpleWorkflow_def qualifies_def declared_dependencies_def)
  have 6: "\<forall>j<1. \<not> qualifies ?su (steps simpleWorkflow ! j)"
    by (simp add: simpleWorkflow_def qualifies_def)
  from findNextStep_first_qualifying [of cyclicWorkflow ?st _ _ ?e 0 executeStep] 1 2 3
  have a: "findNextStep cyclicWorkflow ?st = None"
    and b: "status_of (executeNextStep executeStep ?e 0) 0 = Some Completed"
    by blast+
  from findNextStep_first_qualifying [of simpleWorkflow ?su "steps simpleWorkflow ! 1"] 4 5 6
  have c: "findNextStep simpleWorkflow ?su = Some (steps simpleWorkflow ! 1)"
    by blast
  from a b c show ?thesis by blast
qed

subsection \<open>Invariants of the engine's histories\<close>

lemma status_step_refl [simp]: "status_step x x"
  by (cases "(x, x)" rule: status_step.cases) auto














text \<open>
  The traces end where the operations end: the last engine of a call's trace is the engine
  the call leaves.
\<close>

lemma last_Cons_Cons: "last (x # y # ys) = last (y # ys)"
  by simp

lemma trace_last: "last (e # executeNextStep_trace ex e i) = executeNextStep ex e i"
proof (induction ex e i rule: executeNextStep_trace.induct)
  case (1 ex e i)
  note unfold = executeNextStep_trace.simps [of ex e i] executeNextStep.simps [of ex e i]
  show ?case
  proof (cases "states e i")
    case None
    then show ?thesis by (simp add: unfold)
  next
    case (Some state)
    note st = this
    show ?thesis
    proof (cases "workflows e (workflowId state)")
      case None
      with st show ?thesis by (simp add: unfold)
    next
      case (Some workflow)
      note wf = this
      show ?thesis
      proof (cases "findNextStep workflow state")
        case None
        with st wf show ?thesis by (simp add: unfold)
      next
        case (Some nextStep)
        note nx = this
        show ?thesis
        proof (cases "ex nextStep (running_state state nextStep (clock e))")
          case (Inl err)
          with st wf nx show ?thesis by (simp add: unfold)
        next
          case (Inr result)
          note res = this
          show ?thesis
          proof (cases "requiresHuman result")
            case (Some h)
            with st wf nx res show ?thesis by (simp add: unfold)
          next
            case None
            note nh = this
            show ?thesis
            proof (cases "success result")
              case False
              with st wf nx res nh show ?thesis by (simp add: unfold)
            next
              case True
              from "1.IH" [OF st wf nx res nh True] st wf nx res nh True
              show ?thesis
                by (simp only: unfold option.case sum.case if_True last_Cons_Cons)
            qed
          qed
        qed
      qed
    qed
  qed
qed

lemma startWorkflow_trace_last:
  "last (e # startWorkflow_trace ex e wid d) = snd (startWorkflow ex e wid d)"
proof (cases "workflows e wid")
  case None
  then show ?thesis by (simp add: startWorkflow_trace_def startWorkflow_def)
next
  case (Some workflow)
  then have "last (e # startWorkflow_trace ex e wid d) =
             last (create_instance e wid d #
                   executeNextStep_trace ex (create_instance e wid d) (uuids e))"
    by (simp only: startWorkflow_trace_def option.case last_Cons_Cons)
  also have "\<dots> = executeNextStep ex (create_instance e wid d) (uuids e)"
    by (rule trace_last)
  finally show ?thesis using Some by (simp add: startWorkflow_def)
qed

lemma provideHumanInput_trace_last:
  "last (e # provideHumanInput_trace ex e i x) = snd (provideHumanInput ex e i x)"
proof (cases "\<exists>state p. states e i = Some state \<and> pendingHumanInputs e i = Some p \<and>
                status state = Paused")
  case False
  then show ?thesis
    by (auto simp: provideHumanInput_trace_def provideHumanInput_def split: option.splits)
next
  case True
  then obtain state p where st: "states e i = Some state" "pendingHumanInputs e i = Some p"
    "status state = Paused" by blast
  then have "last (e # provideHumanInput_trace ex e i x) =
             last (accept_input e i state p x #
                   executeNextStep_trace ex (accept_input e i state p x) i)"
    by (simp add: provideHumanInput_trace_def del: last.simps add: last_Cons_Cons)
  also have "\<dots> = executeNextStep ex (accept_input e i state p x) i"
    by (rule trace_last)
  finally show ?thesis using st by (simp add: provideHumanInput_def)
qed

subsection \<open>Claims about the workflow engine\<close>






text \<open>
  C6. \<open>provideHumanInput\<close> throws exactly when the instance does not exist, or has no
  pending human input, or is not paused; what it throws is the one error of the source
  (the specification's \<open>InvalidState\<close>), and the engine is then left as it was.
\<close>

theorem provideHumanInput_throws_iff:
  "((\<exists>t. fst (provideHumanInput ex e instanceId input) = Inl t) \<longleftrightarrow>
      (getWorkflowState e instanceId = None \<or> getPendingHumanInput e instanceId = None \<or>
       status_of e instanceId \<noteq> Some Paused)) \<and>
   (\<forall>t. fst (provideHumanInput ex e instanceId input) = Inl t \<longrightarrow>
      t = no_pending_input \<and> snd (provideHumanInput ex e instanceId input) = e)"
  by (auto simp: provideHumanInput_def getWorkflowState_def getPendingHumanInput_def
      status_of_def split: option.splits)

theorem provideHumanInput_throws_iff_witness:
  "status_of (engine_history executeStep
       [RegisterWorkflow simpleWorkflow, StartWorkflow ''simple-approval'' None] ! 3) 0
     = Some Running \<and>
   fst (provideHumanInput executeStep
     (engine_history executeStep
        [RegisterWorkflow simpleWorkflow, StartWorkflow ''simple-approval'' None] ! 3)
     0 (JStr ''yes'')) = Inl no_pending_input \<and>
   snd (provideHumanInput executeStep
     (engine_history executeStep
        [RegisterWorkflow simpleWorkflow, StartWorkflow ''simple-approval'' None] ! 3)
     0 (JStr ''yes'')) =
     engine_history executeStep
        [RegisterWorkflow simpleWorkflow, StartWorkflow ''simple-approval'' None] ! 3"
proof -
  let ?e = "engine_history executeStep
        [RegisterWorkflow simpleWorkflow, StartWorkflow ''simple-approval'' None] ! 3"
  have running: "status_of ?e 0 = Some Running" by code_simp
  then have "status_of ?e 0 \<noteq> Some Paused" by simp
  with provideHumanInput_throws_iff [of executeStep ?e 0 "JStr ''yes''"] running
  show ?thesis by blast
qed







lemma no_dependencies_completed:
  "completedSteps state = [] \<Longrightarrow> qualifies state s = (declared_dependencies s = {})"
  by (simp add: qualifies_def)

text \<open>
  C9. When no step of a registered definition is eligible as an instance starts, because
  every step declares at least one dependency (as in a dependency cycle through all the
  steps), \<open>startWorkflow\<close> returns the new instance id with the instance completed and its
  completed steps empty; the only event is \<open>workflow_completed\<close>, nothing is thrown, and
  the outcome does not depend on the step executor (no step is executed).
\<close>

theorem no_eligible_step_completes:
  assumes "workflows e wid = Some workflow"
    and "\<forall>s \<in> set (steps workflow). declared_dependencies s \<noteq> {}"
  shows "fst (startWorkflow ex e wid d) = Inr (uuids e) \<and>
         status_of (snd (startWorkflow ex e wid d)) (uuids e) = Some Completed \<and>
         map_option completedSteps (getWorkflowState (snd (startWorkflow ex e wid d)) (uuids e))
           = Some [] \<and>
         emitted (snd (startWorkflow ex e wid d)) =
           emitted e @
           [\<lparr>event_id = Suc (uuids e), ev_workflowId = uuids e, ev_type = workflow_completed,
             timestamp = clock e, ev_data = WorkflowCompletedData\<rparr>] \<and>
         startWorkflow ex' e wid d = startWorkflow ex e wid d"
proof -
  let ?st = "\<lparr>state_id = uuids e, workflowId = wid, currentStepId = None, completedSteps = [],
         stepData = (case d of None \<Rightarrow> Map.empty | Some d \<Rightarrow> d),
         status = Pending, createdAt = clock e, updatedAt = clock e\<rparr>"
  let ?e = "create_instance e wid d"
  have st: "states ?e (uuids e) = Some ?st"
    by (simp add: create_instance_def update_state_def)
  have wf: "workflows ?e (workflowId ?st) = Some workflow"
    using assms(1) by (simp add: create_instance_def update_state_def)
  have "\<forall>s \<in> set (steps workflow). \<not> qualifies ?st s"
    using assms(2) by (simp add: no_dependencies_completed)
  then have f: "findNextStep workflow ?st = None"
    by (simp add: findNextStep_def find_None_iff step_ready_qualifies)
  have run: "executeNextStep x ?e (uuids e) = complete_workflow ?e (uuids e) ?st" for x
    by (rule executeNextStep_none [OF st wf f])
  have eq: "startWorkflow x e wid d = (Inr (uuids e), complete_workflow ?e (uuids e) ?st)" for x
    using assms(1) by (simp add: startWorkflow_def run)
  show ?thesis
    by (simp add: eq getWorkflowState_def status_of_def complete_workflow_def
        create_instance_def emitEvent_def update_state_def)
qed

theorem no_eligible_step_completes_witness:
  "fst (startWorkflow executeStep (registerWorkflow new_WorkflowEngine cyclicWorkflow) ''c'' None)
     = Inr 0 \<and>
   status_of
     (snd (startWorkflow executeStep (registerWorkflow new_WorkflowEngine cyclicWorkflow) ''c'' None))
     0 = Some Completed \<and>
   map_option completedSteps
     (getWorkflowState
        (snd (startWorkflow executeStep (registerWorkflow new_WorkflowEngine cyclicWorkflow)
                ''c'' None)) 0) = Some [] \<and>
   map ev_type
     (emitted (snd (startWorkflow executeStep
        (registerWorkflow new_WorkflowEngine cyclicWorkflow) ''c'' None)))
     = [workflow_completed]"
proof -
  let ?r = "registerWorkflow new_WorkflowEngine cyclicWorkflow"
  have reg: "workflows ?r ''c'' = Some cyclicWorkflow"
    by (simp add: registerWorkflow_def cyclicWorkflow_def)
  have deps: "\<forall>s \<in> set (steps cyclicWorkflow). declared_dependencies s \<noteq> {}"
    by (simp add: cyclicWorkflow_def declared_dependencies_def)
  have u0: "uuids ?r = 0" "emitted ?r = []"
    by (simp_all add: registerWorkflow_def new_WorkflowEngine_def)
  from no_eligible_step_completes [OF reg deps, of executeStep None] u0
  show ?thesis by simp
qed

subsection \<open>Claims about the dispatch manager and the Gemini adapter\<close>

lemma initialize_initialized:
  assumes "initialize m constructed = Inr m'"
  shows "initialized m'"
proof (cases "providers_has (m\<lparr>providers := constructed\<rparr>) (primaryProvider m)")
  case True
  with assms show ?thesis
    by (auto simp: initialize_def initialized_def providers_has_def split: if_splits)
next
  case False
  from assms have ne: "constructed \<noteq> []" by (auto simp: initialize_def split: if_splits)
  then obtain k v rest where c: "constructed = (k, v) # rest" by (cases constructed) auto
  with assms False show ?thesis
    by (auto simp: initialize_def initialized_def providers_has_def getAvailableProviders_def
        split: if_splits)
qed

lemma providersToTry_constructed:
  "initialized m \<Longrightarrow> p \<in> set (providersToTry m) \<Longrightarrow> providers_has m p"
  by (auto simp: providersToTry_def initialized_def)







text \<open>
  When every provider of the try order throws, \<open>chat\<close> throws the error of the source's last
  \<open>throw\<close>, built from what the last provider it called threw.
\<close>

lemma try_providers_all_fail:
  assumes "\<forall>p \<in> set ps. providers_has m p \<and> \<not> succeeds m ms os p" and "l \<in> set ps"
  shows "\<exists>err. fst (try_providers m l ms os ps) =
                 Inl (JsError (''All available LLM providers failed. Last error: '' @ to_string err)) \<and>
               snd (try_providers m l ms os ps) \<noteq> [] \<and>
               call_result m ms os (last (snd (try_providers m l ms os ps))) = Some (Inl err)"
  using assms
proof (induction ps)
  case Nil
  then show ?case by simp
next
  case (Cons p ps)
  then obtain a where a: "providers_get m p = Some a"
    by (auto simp: providers_has_def providers_get_def)
  from Cons.prems a obtain err where err: "provider_chat a ms os = Inl err"
    by (cases "provider_chat a ms os") (auto simp: succeeds_def call_result_def)
  show ?case
  proof (cases "p = l")
    case True
    with a err show ?thesis by (simp add: call_result_def)
  next
    case False
    with Cons.prems have "l \<in> set ps" "\<forall>p \<in> set ps. providers_has m p \<and> \<not> succeeds m ms os p"
      by auto
    from Cons.IH [OF this(2,1)] a err False show ?thesis by auto
  qed
qed

lemma chat_all_fail:
  assumes "initialized m" and "\<forall>p \<in> set (providersToTry m). \<not> succeeds m ms os p"
  shows "\<exists>err. returned (chat m ms os) =
                 Inl (JsError (''All available LLM providers failed. Last error: '' @ to_string err)) \<and>
               attempted (chat m ms os) \<noteq> [] \<and>
               call_result m ms os (last (attempted (chat m ms os))) = Some (Inl err)"
proof -
  have "\<forall>p \<in> set (providersToTry m). providers_has m p \<and> \<not> succeeds m ms os p"
    using assms by (auto intro: providersToTry_constructed)
  moreover have "providersToTry m \<noteq> []" by (simp add: providersToTry_def)
  then have "last (providersToTry m) \<in> set (providersToTry m)" by (rule last_in_set)
  ultimately show ?thesis
    using try_providers_all_fail [of "providersToTry m" m ms os "last (providersToTry m)"]
    by (simp add: chat_def Let_def)
qed

text \<open>The Gemini adapter puts its own name into the response.\<close>

lemma gemini_provider_field:
  "provider_chat (GeminiProvider cfg sdk) ms os = Inr response \<Longrightarrow> provider response = ''gemini''"
  by (auto simp: GeminiProvider_def gemini_chat_def Let_def split: option.splits sum.splits)

text \<open>
  C7, the code at the failing input. The primary (gemini) is also the last fallback and
  its call throws; anthropic, which stands before the last entry of the try order, would
  answer. \<open>chat\<close> throws after the first call and never calls anthropic.
\<close>

theorem chat_throws_before_fallback:
  "providersToTry repeated_primary_manager = [gemini, anthropic, gemini] \<and>
   succeeds repeated_primary_manager hello None anthropic \<and>
   returned (chat repeated_primary_manager hello None) =
     Inl (JsError (''All available LLM providers failed. Last error: '' @
                   ''Error: Gemini API error: quota exceeded'')) \<and>
   attempted (chat repeated_primary_manager hello None) = [gemini]"
  by (simp add: chat_def providersToTry_def repeated_primary_manager_def providers_has_def
      providers_get_def succeeds_def call_result_def answering_adapter_def GeminiProvider_def
      gemini_chat_def gemini_request_def gemini_wrap_def error_message_def to_string_def hello_def)

text \<open>
  C10. \<open>chat\<close> (and \<open>prompt\<close>) leave the manager as it was: the primary provider, the
  fallback list and the provider map are those of the call's start, so on an initialized
  manager the next \<open>chat\<close> calls the same primary first again. \<open>switchPrimaryProvider\<close>
  sets the primary to a constructed provider and changes nothing else; for a provider
  that is not constructed it throws and changes nothing.
\<close>

theorem chat_leaves_manager:
  "manager (chat m ms os) = m \<and>
   manager (prompt_chat m t os) = m \<and>
   (initialized m \<longrightarrow>
      attempted (chat (manager (chat m ms os)) ms' os') \<noteq> [] \<and>
      hd (attempted (chat (manager (chat m ms os)) ms' os')) = primaryProvider m) \<and>
   (providers_has m p \<longrightarrow>
      switchPrimaryProvider m p = (Inr (), m\<lparr>primaryProvider := p\<rparr>)) \<and>
   (\<not> providers_has m p \<longrightarrow>
      (\<exists>t. fst (switchPrimaryProvider m p) = Inl t) \<and> snd (switchPrimaryProvider m p) = m)"
proof (intro conjI impI)
  show m: "manager (chat m ms os) = m" by (simp add: chat_def Let_def)
  show "manager (prompt_chat m t os) = m" by (simp add: prompt_chat_def chat_def Let_def)
  show "providers_has m p \<Longrightarrow> switchPrimaryProvider m p = (Inr (), m\<lparr>primaryProvider := p\<rparr>)"
    by (simp add: switchPrimaryProvider_def)
  show "\<not> providers_has m p \<Longrightarrow> \<exists>t. fst (switchPrimaryProvider m p) = Inl t"
    by (simp add: switchPrimaryProvider_def)
  show "\<not> providers_has m p \<Longrightarrow> snd (switchPrimaryProvider m p) = m"
    by (simp add: switchPrimaryProvider_def)
  assume "initialized m"
  then obtain a where a: "providers_get m (primaryProvider m) = Some a"
    by (auto simp: initialized_def providers_has_def providers_get_def)
  have "attempted (chat m ms' os') \<noteq> [] \<and> hd (attempted (chat m ms' os')) = primaryProvider m"
    using a by (cases "provider_chat a ms' os'") (simp_all add: chat_def Let_def providersToTry_def)
  then show "attempted (chat (manager (chat m ms os)) ms' os') \<noteq> []"
    and "hd (attempted (chat (manager (chat m ms os)) ms' os')) = primaryProvider m"
    by (simp_all add: m)
qed

theorem chat_leaves_manager_witness:
  "manager (chat repeated_primary_manager hello None) = repeated_primary_manager \<and>
   hd (attempted (chat (manager (chat repeated_primary_manager hello None)) hello None)) = gemini \<and>
   primaryProvider (snd (switchPrimaryProvider repeated_primary_manager anthropic)) = anthropic \<and>
   snd (switchPrimaryProvider repeated_primary_manager openai) = repeated_primary_manager"
proof -
  let ?m = repeated_primary_manager
  have i: "initialized ?m"
    by (simp add: initialized_def repeated_primary_manager_def providers_has_def)
  have h: "providers_has ?m anthropic" "\<not> providers_has ?m openai"
    by (simp_all add: repeated_primary_manager_def providers_has_def)
  have p: "primaryProvider ?m = gemini" by (simp add: repeated_primary_manager_def)
  from chat_leaves_manager [of ?m hello None "''Hello''" hello None anthropic] i h(1)
  have 1: "manager (chat ?m hello None) = ?m"
    and c: "hd (attempted (chat (manager (chat ?m hello None)) hello None)) = primaryProvider ?m"
    and s: "switchPrimaryProvider ?m anthropic = (Inr (), ?m\<lparr>primaryProvider := anthropic\<rparr>)"
    by blast+
  from c have 2: "hd (attempted (chat (manager (chat ?m hello None)) hello None)) = gemini"
    by (simp only: p)
  from s have 3: "primaryProvider (snd (switchPrimaryProvider ?m anthropic)) = anthropic"
    by simp
  from chat_leaves_manager [of ?m hello None "''Hello''" hello None openai] h(2)
  have 4: "snd (switchPrimaryProvider ?m openai) = ?m" by blast
  from 1 2 3 4 show ?thesis by blast
qed

lemma gemini_convert_drops_system:
  "gemini_convert messages history lastMessage =
   gemini_convert (filter (\<lambda>message. role message \<noteq> system) messages) history lastMessage"
  by (induction messages history lastMessage rule: gemini_convert.induct) simp_all

text \<open>
  C4, the code at the failing input. For a system message followed by a user message the
  adapter sends the user message alone: the history is empty, and the content of the
  system message is in no part of the request.
\<close>

theorem gemini_discards_system_message:
  "gemini_request gemini_config
     [\<lparr>role = system, content = ''Answer in one word.''\<rparr>, \<lparr>role = user, content = ''Hello''\<rparr>]
     \<lparr>temperature = None, maxTokens = None, model = None, timeout = None\<rparr>
   = Inr \<lparr>g_model = ''gemini-1.5-pro'', g_history = [], g_temperature = 1 / 10,
          g_maxOutputTokens = 1000, g_message = ''Hello''\<rparr> \<and>
   gemini_request gemini_config
     [\<lparr>role = system, content = ''Answer in one word.''\<rparr>, \<lparr>role = user, content = ''Hello''\<rparr>]
     \<lparr>temperature = None, maxTokens = None, model = None, timeout = None\<rparr>
   = gemini_request gemini_config [\<lparr>role = user, content = ''Hello''\<rparr>]
     \<lparr>temperature = None, maxTokens = None, model = None, timeout = None\<rparr>"
  by (simp add: gemini_request_def gemini_getModel_def gemini_config_def or_default_def
      nullish_def gemini_supportedModels_def)

end
